theory Spec2Isabelle
  imports Complex_Main "HOL-Library.Multiset"
begin

section \<open>Data model of \<open>src/utils/kriging.ts\<close>\<close>

text \<open>
  The TypeScript type \<open>number\<close> is read as \<open>real\<close>: arithmetic is exact, without
  rounding or overflow, and the IEEE-754 values \<open>NaN\<close> and \<open>\<plusminus>Infinity\<close> are not numbers
  of the model. On real inputs they can only arise in this module from a division whose
  divisor is zero, so every division of the source whose divisor is not guarded goes
  through \<open>js_div\<close> below, with a branch for each outcome. A result of type
  \<open>real option\<close> is \<open>None\<close> where the source evaluates to \<open>NaN\<close>. \<open>Math.sqrt\<close> is only
  applied to sums of two squares, where it is the real square root.
\<close>

record Sample =
  x :: real
  y :: real
  z :: real

text \<open>The field \<open>range\<close> of the source is \<open>range_v\<close>: \<open>range\<close> is a constant of HOL.\<close>

record VariogramParams =
  nugget :: real
  sill :: real
  range_v :: real

text \<open>
  The invariant the specification puts on \<open>VariogramParams\<close>; the source does not check it.
\<close>

definition valid_params :: "VariogramParams \<Rightarrow> bool" where
  "valid_params p \<longleftrightarrow> 0 \<le> nugget p \<and> nugget p \<le> sill p \<and> 0 < range_v p"

section \<open>Division\<close>

text \<open>
  The value of \<open>a / b\<close> in the source, for real \<open>a\<close> and \<open>b\<close>: a real number when the
  divisor is not zero, otherwise an infinity or \<open>NaN\<close>.
\<close>

datatype quotient = Fin real | PosInf | NegInf | NaN

definition js_div :: "real \<Rightarrow> real \<Rightarrow> quotient" where
  "js_div a b =
     (if b \<noteq> 0 then Fin (a / b)
      else if 0 < a then PosInf
      else if a < 0 then NegInf
      else NaN)"

section \<open>Spherical variogram model\<close>

text \<open>
  \<^verbatim>\<open>
  const c = sill - nugget;
  if (distance === 0) return 0;
  if (distance >= range) return sill;
  const h_a = distance / range;
  return nugget + c * (1.5 * h_a - 0.5 * Math.pow(h_a, 3));
  \<close>
  When \<open>h_a\<close> is not a real number, the bracket is \<open>Infinity - Infinity\<close> or contains
  \<open>NaN\<close>, and the function returns \<open>NaN\<close>.
\<close>

definition sphericalVariogram :: "real \<Rightarrow> VariogramParams \<Rightarrow> real option" where
  "sphericalVariogram distance params =
     (let c = sill params - nugget params in
      if distance = 0 then Some 0
      else if distance \<ge> range_v params then Some (sill params)
      else (case js_div distance (range_v params) of
              Fin h_a \<Rightarrow> Some (nugget params + c * (1.5 * h_a - 0.5 * h_a ^ 3))
            | _ \<Rightarrow> None))"

section \<open>Empirical semivariogram\<close>

text \<open>The element type \<open>{ distance: number; semivariance: number }\<close> of pairs and of the result.\<close>

record EmpiricalPoint =
  distance :: real
  semivariance :: real

text \<open>
  The element type \<open>{ distance: number; count: number; sum: number }\<close> of \<open>bins\<close>; the
  fields carry the prefix \<open>bin_\<close> to keep them apart from \<open>distance\<close> above and from the
  HOL constants \<open>count\<close> and \<open>sum\<close>.
\<close>

record Bin =
  bin_distance :: real
  bin_count :: nat
  bin_sum :: real

text \<open>
  Ways in which a call can end without a result: the loop that creates the bins has the
  bound \<open>Infinity\<close> and never ends, or \<open>bins[binIndex]\<close> is \<open>undefined\<close> and reading its
  field \<open>count\<close> throws a \<open>TypeError\<close>.
\<close>

datatype failure = Unbounded_Loop | TypeError

definition pairOf :: "Sample \<Rightarrow> Sample \<Rightarrow> EmpiricalPoint" where
  "pairOf si sj =
     (let dx = x si - x sj;
          dy = y si - y sj
      in \<lparr>distance = sqrt (dx * dx + dy * dy),
          semivariance = 0.5 * (z si - z sj) ^ 2\<rparr>)"

text \<open>The two nested loops over \<open>i\<close> and \<open>j = i + 1, ...\<close>, in the order of the pushes.\<close>

fun allPairs :: "Sample list \<Rightarrow> EmpiricalPoint list" where
  "allPairs [] = []"
| "allPairs (s # rest) = map (pairOf s) rest @ allPairs rest"

text \<open>
  \<^verbatim>\<open>for (let i = 0; i <= Math.ceil(maxDistance / binSize); i++)
    bins.push({ distance: (i + 0.5) * binSize, count: 0, sum: 0 });\<close>
  A comparison with \<open>NaN\<close> is false, so the loop body never runs for \<open>NaN\<close>.
\<close>

definition makeBins :: "real \<Rightarrow> real \<Rightarrow> failure + Bin list" where
  "makeBins binSize maxDistance =
     (case js_div maxDistance binSize of
        Fin q \<Rightarrow>
          Inr (map (\<lambda>i. \<lparr>bin_distance = (real i + 0.5) * binSize, bin_count = 0, bin_sum = 0\<rparr>)
                 [0 ..< nat (\<lceil>q\<rceil> + 1)])
      | PosInf \<Rightarrow> Inl Unbounded_Loop
      | NegInf \<Rightarrow> Inr []
      | NaN \<Rightarrow> Inr [])"

text \<open>
  \<^verbatim>\<open>const binIndex = Math.floor(pair.distance / binSize);
  if (binIndex < bins.length) {
    bins[binIndex].count++;
    bins[binIndex].sum += pair.semivariance;
  }\<close>
  A negative index passes the test and reads \<open>undefined\<close>.
\<close>

definition assignPair :: "real \<Rightarrow> Bin list \<Rightarrow> EmpiricalPoint \<Rightarrow> failure + Bin list" where
  "assignPair binSize bins pair =
     (case js_div (distance pair) binSize of
        Fin q \<Rightarrow>
          (let binIndex = \<lfloor>q\<rfloor> in
           if binIndex < int (length bins) then
             (if 0 \<le> binIndex then
                Inr (bins[nat binIndex :=
                       (bins ! nat binIndex)
                         \<lparr>bin_count := bin_count (bins ! nat binIndex) + 1,
                          bin_sum := bin_sum (bins ! nat binIndex) + semivariance pair\<rparr>])
              else Inl TypeError)
           else Inr bins)
      | PosInf \<Rightarrow> Inr bins
      | NegInf \<Rightarrow> Inl TypeError
      | NaN \<Rightarrow> Inr bins)"

fun assignPairs :: "real \<Rightarrow> Bin list \<Rightarrow> EmpiricalPoint list \<Rightarrow> failure + Bin list" where
  "assignPairs binSize bins [] = Inr bins"
| "assignPairs binSize bins (pair # rest) =
     (case assignPair binSize bins pair of
        Inl e \<Rightarrow> Inl e
      | Inr bins' \<Rightarrow> assignPairs binSize bins' rest)"

text \<open>The array \<open>bins\<close> after the loop that assigns the pairs, for a non-empty \<open>pairs\<close>.\<close>

definition fillBins :: "real \<Rightarrow> EmpiricalPoint list \<Rightarrow> failure + Bin list" where
  "fillBins binSize pairs =
     (let maxDistance = Max (set (map distance pairs)) in
      case makeBins binSize maxDistance of
        Inl e \<Rightarrow> Inl e
      | Inr bins \<Rightarrow> assignPairs binSize bins pairs)"

text \<open>
  The division \<open>bin.sum / bin.count\<close> is guarded by the filter. The default value 5 of
  \<open>binSize\<close> is left to the caller.
\<close>

definition calculateSemivariogram :: "Sample list \<Rightarrow> real \<Rightarrow> failure + EmpiricalPoint list" where
  "calculateSemivariogram samples binSize =
     (if length samples < 2 then Inr []
      else
        let pairs = allPairs samples in
        if length pairs = 0 then Inr []
        else
          case fillBins binSize pairs of
            Inl e \<Rightarrow> Inl e
          | Inr bins \<Rightarrow>
              Inr (map (\<lambda>bin. \<lparr>distance = bin_distance bin,
                                semivariance = bin_sum bin / real (bin_count bin)\<rparr>)
                     (filter (\<lambda>bin. bin_count bin > 0) bins)))"

section \<open>Heuristic parameter fit\<close>


section \<open>Gaussian elimination\<close>

text \<open>
  The matrix is a list of rows. The function is private to the module and is only called
  on the square system of \<open>krigePoint\<close>, where every index below is in range.
\<close>

text \<open>The search for the pivot row of column \<open>i\<close>: the first row of largest magnitude.\<close>

definition findPivot :: "real list list \<Rightarrow> nat \<Rightarrow> nat \<Rightarrow> nat" where
  "findPivot matrix n i =
     fold (\<lambda>k maxRow. if \<bar>matrix ! k ! i\<bar> > \<bar>matrix ! maxRow ! i\<bar> then k else maxRow)
       [i + 1 ..< n] i"

text \<open>The destructuring swap \<open>[a[i], a[k]] = [a[k], a[i]]\<close>.\<close>

definition swapRows :: "'a list \<Rightarrow> nat \<Rightarrow> nat \<Rightarrow> 'a list" where
  "swapRows a i k = (a[i := a ! k])[k := a ! i]"

text \<open>The loop over \<open>j\<close>: \<open>matrix[k][j] -= factor * matrix[i][j]\<close> for \<open>j = i, ..., n - 1\<close>.\<close>

definition eliminateRow :: "nat \<Rightarrow> nat \<Rightarrow> real \<Rightarrow> real list \<Rightarrow> real list \<Rightarrow> real list" where
  "eliminateRow n i factor pivotRow row =
     fold (\<lambda>j r. r[j := r ! j - factor * pivotRow ! j]) [i ..< n] row"

text \<open>
  The body of the loop over the rows \<open>k\<close> below the pivot: the factor is computed
  first, then row \<open>k\<close> of the matrix and entry \<open>k\<close> of the right-hand side are updated.
  The divisor is the pivot, whose magnitude is at least \<open>1e-10\<close> when the loop is reached.
\<close>

definition eliminateStep ::
  "nat \<Rightarrow> nat \<Rightarrow> nat \<Rightarrow> real list list \<times> real list \<Rightarrow> real list list \<times> real list" where
  "eliminateStep n i k =
     (\<lambda>(matrix, rhs).
        let factor = matrix ! k ! i / matrix ! i ! i
        in (matrix[k := eliminateRow n i factor (matrix ! i) (matrix ! k)],
            rhs[k := rhs ! k - factor * rhs ! i]))"

text \<open>The loop over the rows \<open>k = i + 1, ..., n - 1\<close>.\<close>

definition eliminateBelow ::
  "nat \<Rightarrow> nat \<Rightarrow> real list list \<times> real list \<Rightarrow> real list list \<times> real list" where
  "eliminateBelow n i = fold (eliminateStep n i) [i + 1 ..< n]"

function forwardElimination ::
  "nat \<Rightarrow> nat \<Rightarrow> real list list \<Rightarrow> real list \<Rightarrow> (real list list \<times> real list) option" where
  "forwardElimination n i matrix rhs =
     (if i < n then
        let maxRow = findPivot matrix n i;
            matrix1 = swapRows matrix i maxRow;
            rhs1 = swapRows rhs i maxRow
        in if \<bar>matrix1 ! i ! i\<bar> < 1 / 10 ^ 10 then None
           else (case eliminateBelow n i (matrix1, rhs1) of
                   (matrix2, rhs2) \<Rightarrow> forwardElimination n (i + 1) matrix2 rhs2)
      else Some (matrix, rhs))"
  by pat_completeness auto
termination
  by (relation "measure (\<lambda>(n, i, matrix, rhs). n - i)") auto

declare forwardElimination.simps [simp del]

text \<open>
  Back substitution, for \<open>i = n - 1\<close> down to 0. The entries of \<open>solution\<close> that are read
  have been written before; the others start as 0 here.
\<close>

definition backSubstitution :: "nat \<Rightarrow> real list list \<Rightarrow> real list \<Rightarrow> real list" where
  "backSubstitution n matrix rhs =
     fold (\<lambda>i solution.
             let s = fold (\<lambda>j s. s - matrix ! i ! j * solution ! j) [i + 1 ..< n] (rhs ! i)
             in solution[i := s / matrix ! i ! i])
       (rev [0 ..< n]) (replicate n 0)"

text \<open>\<open>None\<close> is the \<open>null\<close> of the source: the system was found singular.\<close>

definition gaussianElimination :: "real list list \<Rightarrow> real list \<Rightarrow> real list option" where
  "gaussianElimination A b =
     (let n = length A in
      case forwardElimination n 0 A b of
        None \<Rightarrow> None
      | Some (matrix, rhs) \<Rightarrow> Some (backSubstitution n matrix rhs))"

section \<open>Inverse distance weighting\<close>

text \<open>
  The loop, with its two accumulators and its early return; the equation for the empty
  list is the statement after the loop.
\<close>

fun idwLoop :: "real \<Rightarrow> real \<Rightarrow> real \<Rightarrow> real \<Rightarrow> Sample list \<Rightarrow> real" where
  "idwLoop qx qy totalWeight weightedSum [] =
     (if totalWeight > 0 then weightedSum / totalWeight else 0)"
| "idwLoop qx qy totalWeight weightedSum (sample # rest) =
     (let dx = qx - x sample;
          dy = qy - y sample;
          d = sqrt (dx * dx + dy * dy)
      in if d < 0.001 then z sample
         else (let weight = 1 / (d * d)
               in idwLoop qx qy (totalWeight + weight) (weightedSum + weight * z sample) rest))"

definition inverseDistanceWeighting :: "real \<Rightarrow> real \<Rightarrow> Sample list \<Rightarrow> real" where
  "inverseDistanceWeighting qx qy samples = idwLoop qx qy 0 0 samples"

section \<open>Ordinary kriging at a point\<close>

text \<open>Row \<open>i\<close> of the system: the semivariances to every sample, then the 1 of the multiplier.\<close>

definition systemRow :: "Sample list \<Rightarrow> VariogramParams \<Rightarrow> nat \<Rightarrow> real option list" where
  "systemRow samples params i =
     map (\<lambda>j. if i = j then Some 0
              else (let dx = x (samples ! i) - x (samples ! j);
                        dy = y (samples ! i) - y (samples ! j)
                    in sphericalVariogram (sqrt (dx * dx + dy * dy)) params))
       [0 ..< length samples]
     @ [Some 1]"

text \<open>The entry of the right-hand side for sample \<open>i\<close>.\<close>

definition rhsEntry :: "real \<Rightarrow> real \<Rightarrow> VariogramParams \<Rightarrow> Sample \<Rightarrow> real option" where
  "rhsEntry qx qy params sample =
     (let dx = qx - x sample;
          dy = qy - y sample
      in sphericalVariogram (sqrt (dx * dx + dy * dy)) params)"

text \<open>
  The matrix \<open>A\<close> and the vector \<open>b\<close>, with the constraint row and its right-hand side 1.
  The result is \<open>None\<close> when an entry is \<open>NaN\<close>; \<open>buildSystem_shape\<close> below shows that
  this never happens, every distance being a square root.
\<close>

definition buildSystem ::
  "real \<Rightarrow> real \<Rightarrow> Sample list \<Rightarrow> VariogramParams \<Rightarrow> (real list list \<times> real list) option" where
  "buildSystem qx qy samples params =
     (let n = length samples in
      case those (map (\<lambda>i. those (systemRow samples params i)) [0 ..< n]) of
        None \<Rightarrow> None
      | Some rows \<Rightarrow>
          (case those (map (rhsEntry qx qy params) samples) of
             None \<Rightarrow> None
           | Some bs \<Rightarrow> Some (rows @ [replicate n 1 @ [0]], bs @ [1])))"

definition krigePoint :: "real \<Rightarrow> real \<Rightarrow> Sample list \<Rightarrow> VariogramParams \<Rightarrow> real option" where
  "krigePoint qx qy samples params =
     (if length samples = 0 then Some 0
      else
        case find (\<lambda>sample. x sample = qx \<and> y sample = qy) samples of
          Some sample \<Rightarrow> Some (z sample)
        | None \<Rightarrow>
            (case buildSystem qx qy samples params of
               None \<Rightarrow> None
             | Some (A, b) \<Rightarrow>
                 (case gaussianElimination A b of
                    None \<Rightarrow> Some (inverseDistanceWeighting qx qy samples)
                  | Some weights \<Rightarrow>
                      Some (fold (\<lambda>i prediction. prediction + weights ! i * z (samples ! i))
                              [0 ..< length samples] 0))))"

section \<open>Standard deviation of a surface\<close>

text \<open>
  \<^verbatim>\<open>const mean = sum / count;
  const variance = sumSquared / count - mean * mean;
  return Math.sqrt(Math.max(variance, 0));\<close>
  The accumulators are the triple \<open>(sumValues, sumSquared, cells)\<close>, and \<open>addCell\<close> is
  the body of the inner loop. With no cell the mean
  is \<open>0 / 0\<close>, which is \<open>NaN\<close>, and so are the variance, the maximum and the root.
\<close>

definition addCell :: "real \<Rightarrow> real \<times> real \<times> nat \<Rightarrow> real \<times> real \<times> nat" where
  "addCell v = (\<lambda>(sumValues, sumSquared, cells).
                  (sumValues + v, sumSquared + v * v, cells + 1))"

definition calculateStdDev :: "real list list \<Rightarrow> real option" where
  "calculateStdDev surface =
     (case fold (\<lambda>row acc. fold addCell row acc) surface (0, 0, 0) of
        (sumValues, sumSquared, cells) \<Rightarrow>
          (case js_div sumValues (real cells) of
             Fin mean \<Rightarrow>
               (let variance = sumSquared / real cells - mean * mean
                in Some (sqrt (max variance 0)))
           | _ \<Rightarrow> None))"

section \<open>Notions used to state the properties\<close>

text \<open>
  The index \<open>Math.floor(pair.distance / binSize)\<close> of the bin of a pair, for a positive
  \<open>binSize\<close> and a non-negative distance, and the pairs of \<open>pairs\<close> that fall into bin \<open>k\<close>.
\<close>

definition binIndexOf :: "real \<Rightarrow> EmpiricalPoint \<Rightarrow> nat" where
  "binIndexOf binSize pair = nat \<lfloor>distance pair / binSize\<rfloor>"

definition pairsInBin :: "real \<Rightarrow> EmpiricalPoint list \<Rightarrow> nat \<Rightarrow> EmpiricalPoint list" where
  "pairsInBin binSize pairs k = filter (\<lambda>pair. binIndexOf binSize pair = k) pairs"

text \<open>
  A matrix with \<open>n\<close> rows of length \<open>n\<close>; two different rows at or below row \<open>i\<close> that
  agree from column \<open>i\<close> on; a row at or below row \<open>i\<close> that is zero from column \<open>i\<close> on.
\<close>

definition squareMatrix :: "nat \<Rightarrow> real list list \<Rightarrow> bool" where
  "squareMatrix n matrix \<longleftrightarrow> length matrix = n \<and> (\<forall>row\<in>set matrix. length row = n)"



section \<open>Properties of the spherical model\<close>





text \<open>
  C3. For a non-negative distance and valid parameters the function returns a number,
  which is 0 at distance 0, the cubic formula strictly inside the range, and the sill
  at or beyond the range.
\<close>

theorem sphericalVariogram_piecewise:
  assumes "valid_params p" and "0 \<le> d"
  shows "sphericalVariogram d p =
           Some (if d = 0 then 0
                 else if d < range_v p
                 then nugget p + (sill p - nugget p)
                        * (1.5 * (d / range_v p) - 0.5 * (d / range_v p) ^ 3)
                 else sill p)"
  using assms by (auto simp: sphericalVariogram_def valid_params_def js_div_def Let_def)

theorem sphericalVariogram_piecewise_witness:
  "valid_params \<lparr>nugget = 0, sill = 30, range_v = 20\<rparr> \<and> (0::real) \<le> 10 \<and>
   sphericalVariogram 10 \<lparr>nugget = 0, sill = 30, range_v = 20\<rparr> = Some (165 / 8)"
proof -
  have v: "valid_params \<lparr>nugget = 0, sill = 30, range_v = 20\<rparr>"
    by (simp add: valid_params_def)
  have d: "(0::real) \<le> 10" by simp
  show ?thesis
    using v sphericalVariogram_piecewise [OF v d] by (simp add: power3_eq_cube)
qed




text \<open>
  C4, as the code has it. With \<open>range \<le> 0\<close> and a non-negative distance the function
  signals nothing: it returns 0 at distance 0 and the sill at every positive distance,
  and the division by the range is not reached.
\<close>

theorem sphericalVariogram_nonpositive_range:
  assumes "range_v p \<le> 0" and "0 \<le> d"
  shows "sphericalVariogram d p = Some (if d = 0 then 0 else sill p)"
  using assms by (auto simp: sphericalVariogram_def js_div_def Let_def)

theorem sphericalVariogram_nonpositive_range_witness:
  "range_v \<lparr>nugget = 0, sill = 1, range_v = - 2\<rparr> \<le> 0 \<and> (0::real) \<le> 3
   \<and> sphericalVariogram 3 \<lparr>nugget = 0, sill = 1, range_v = - 2\<rparr> = Some 1"
proof -
  have r: "range_v \<lparr>nugget = 0, sill = 1, range_v = - 2\<rparr> \<le> 0" by simp
  have d: "(0::real) \<le> 3" by simp
  show ?thesis
    using r sphericalVariogram_nonpositive_range [OF r d] by simp
qed

text \<open>
  C4 as stated fails: with \<open>range = 0\<close> and distance 5 the call returns the sill, an
  ordinary value, and no invalid-argument condition is signalled.
\<close>

theorem sphericalVariogram_zero_range_returns:
  "sphericalVariogram 5 \<lparr>nugget = 0, sill = 1, range_v = 0\<rparr> = Some 1"
  by (simp add: sphericalVariogram_def)

section \<open>Empirical semivariogram: what the bins hold\<close>

lemma allPairs_nonempty: "2 \<le> length samples \<Longrightarrow> allPairs samples \<noteq> []"
  by (cases samples; cases "tl samples") auto

lemma pairOf_nonneg: "0 \<le> distance (pairOf a b)" "0 \<le> semivariance (pairOf a b)"
  by (simp_all add: pairOf_def Let_def)

lemma allPairs_nonneg:
  "p \<in> set (allPairs samples) \<Longrightarrow> 0 \<le> distance p \<and> 0 \<le> semivariance p"
  by (induction samples) (auto simp: pairOf_nonneg)

lemma assignPair_in_range:
  assumes "0 < binSize" "0 \<le> distance p" "binIndexOf binSize p < length bins"
  shows "assignPair binSize bins p =
           Inr (bins[binIndexOf binSize p :=
                  (bins ! binIndexOf binSize p)
                    \<lparr>bin_count := bin_count (bins ! binIndexOf binSize p) + 1,
                     bin_sum := bin_sum (bins ! binIndexOf binSize p) + semivariance p\<rparr>])"
proof -
  have "0 \<le> distance p / binSize" using assms by simp
  then have "0 \<le> \<lfloor>distance p / binSize\<rfloor>" by simp
  moreover have "\<lfloor>distance p / binSize\<rfloor> < int (length bins)"
    using assms(3) \<open>0 \<le> \<lfloor>distance p / binSize\<rfloor>\<close> by (simp add: binIndexOf_def)
  ultimately show ?thesis
    using assms(1) by (simp add: assignPair_def js_div_def binIndexOf_def Let_def)
qed

lemma assignPairs_spec:
  assumes "0 < binSize"
    and "\<forall>p\<in>set ps. 0 \<le> distance p \<and> binIndexOf binSize p < length bins"
  shows "\<exists>bins'. assignPairs binSize bins ps = Inr bins' \<and> length bins' = length bins \<and>
           (\<forall>k<length bins.
              bin_distance (bins' ! k) = bin_distance (bins ! k) \<and>
              bin_count (bins' ! k) = bin_count (bins ! k) + length (pairsInBin binSize ps k) \<and>
              bin_sum (bins' ! k)
                = bin_sum (bins ! k) + sum_list (map semivariance (pairsInBin binSize ps k)))"
  using assms(2)
proof (induction ps arbitrary: bins)
  case Nil
  then show ?case by (simp add: pairsInBin_def)
next
  case (Cons p ps)
  let ?i = "binIndexOf binSize p"
  let ?b1 = "bins[?i := (bins ! ?i)\<lparr>bin_count := bin_count (bins ! ?i) + 1,
                                     bin_sum := bin_sum (bins ! ?i) + semivariance p\<rparr>]"
  have step: "assignPair binSize bins p = Inr ?b1"
    using Cons.prems assms(1) by (intro assignPair_in_range) simp_all
  have len: "length ?b1 = length bins" by simp
  have "\<forall>q\<in>set ps. 0 \<le> distance q \<and> binIndexOf binSize q < length ?b1"
    using Cons.prems by simp
  from Cons.IH [OF this] obtain bins' where
    run: "assignPairs binSize ?b1 ps = Inr bins'" and
    len': "length bins' = length ?b1" and
    ent: "\<forall>k<length ?b1.
              bin_distance (bins' ! k) = bin_distance (?b1 ! k) \<and>
              bin_count (bins' ! k) = bin_count (?b1 ! k) + length (pairsInBin binSize ps k) \<and>
              bin_sum (bins' ! k)
                = bin_sum (?b1 ! k) + sum_list (map semivariance (pairsInBin binSize ps k))"
    by blast
  have "assignPairs binSize bins (p # ps) = Inr bins'"
    using step run by simp
  moreover have "length bins' = length bins" using len' by simp
  moreover have "bin_distance (bins' ! k) = bin_distance (bins ! k) \<and>
              bin_count (bins' ! k) = bin_count (bins ! k) + length (pairsInBin binSize (p # ps) k) \<and>
              bin_sum (bins' ! k)
                = bin_sum (bins ! k) + sum_list (map semivariance (pairsInBin binSize (p # ps) k))"
    if "k < length bins" for k
  proof (cases "k = ?i")
    case True
    then show ?thesis using ent that by (simp add: pairsInBin_def)
  next
    case False
    then show ?thesis using ent that by (auto simp add: pairsInBin_def)
  qed
  ultimately show ?case by blast
qed

lemma binIndex_bound:
  assumes "0 < binSize" "p \<in> set pairs" "0 \<le> distance p"
  shows "binIndexOf binSize p < nat (\<lceil>Max (set (map distance pairs)) / binSize\<rceil> + 1)"
proof -
  let ?m = "Max (set (map distance pairs))"
  have "distance p \<le> ?m" using assms(2) by (intro Max_ge) auto
  then have "distance p / binSize \<le> ?m / binSize"
    using assms(1) by (simp add: divide_right_mono)
  then have "\<lfloor>distance p / binSize\<rfloor> \<le> \<lfloor>?m / binSize\<rfloor>" by (rule floor_mono)
  also have "\<dots> \<le> \<lceil>?m / binSize\<rceil>" by (rule floor_le_ceiling)
  finally have lt: "\<lfloor>distance p / binSize\<rfloor> < \<lceil>?m / binSize\<rceil> + 1" by simp
  have ge: "0 \<le> \<lfloor>distance p / binSize\<rfloor>" using assms by simp
  define a b where "a = \<lfloor>distance p / binSize\<rfloor>" and "b = \<lceil>?m / binSize\<rceil>"
  have "nat a < nat (b + 1)" using lt ge unfolding a_def b_def by linarith
  then show ?thesis by (simp add: binIndexOf_def a_def b_def)
qed

lemma fillBins_spec:
  assumes "0 < binSize" "\<forall>p\<in>set pairs. 0 \<le> distance p"
  shows "\<exists>bins. fillBins binSize pairs = Inr bins \<and>
           (\<forall>k<length bins.
              bin_distance (bins ! k) = (real k + 0.5) * binSize \<and>
              bin_count (bins ! k) = length (pairsInBin binSize pairs k) \<and>
              bin_sum (bins ! k) = sum_list (map semivariance (pairsInBin binSize pairs k)))"
proof -
  let ?m = "nat (\<lceil>Max (set (map distance pairs)) / binSize\<rceil> + 1)"
  let ?bins0 = "map (\<lambda>i. \<lparr>bin_distance = (real i + 0.5) * binSize, bin_count = 0, bin_sum = 0\<rparr>)
                  [0 ..< ?m]"
  have mk: "makeBins binSize (Max (set (map distance pairs))) = Inr ?bins0"
    using assms(1) by (simp add: makeBins_def js_div_def)
  have "\<forall>p\<in>set pairs. 0 \<le> distance p \<and> binIndexOf binSize p < length ?bins0"
    using assms binIndex_bound [OF assms(1)] by simp
  from assignPairs_spec [OF assms(1) this] obtain bins' where
    run: "assignPairs binSize ?bins0 pairs = Inr bins'" and
    len: "length bins' = length ?bins0" and
    ent: "\<forall>k<length ?bins0.
              bin_distance (bins' ! k) = bin_distance (?bins0 ! k) \<and>
              bin_count (bins' ! k) = bin_count (?bins0 ! k) + length (pairsInBin binSize pairs k) \<and>
              bin_sum (bins' ! k)
                = bin_sum (?bins0 ! k) + sum_list (map semivariance (pairsInBin binSize pairs k))"
    by blast
  have "fillBins binSize pairs = Inr bins'"
    using mk run by (simp add: fillBins_def)
  moreover have "\<forall>k<length bins'.
              bin_distance (bins' ! k) = (real k + 0.5) * binSize \<and>
              bin_count (bins' ! k) = length (pairsInBin binSize pairs k) \<and>
              bin_sum (bins' ! k) = sum_list (map semivariance (pairsInBin binSize pairs k))"
    using ent len by simp
  ultimately show ?thesis by blast
qed


lemma calculateSemivariogram_spec:
  assumes "0 < binSize" "2 \<le> length samples"
  shows "\<exists>bins :: Bin list. calculateSemivariogram samples binSize =
                  Inr (map (\<lambda>bin. \<lparr>distance = bin_distance bin,
                                    semivariance = bin_sum bin / real (bin_count bin)\<rparr>)
                         (filter (\<lambda>bin. bin_count bin > 0) bins)) \<and>
           (\<forall>k<length bins.
              bin_distance (bins ! k) = (real k + 0.5) * binSize \<and>
              bin_count (bins ! k) = length (pairsInBin binSize (allPairs samples) k) \<and>
              bin_sum (bins ! k)
                = sum_list (map semivariance (pairsInBin binSize (allPairs samples) k)))"
proof -
  have ne: "allPairs samples \<noteq> []" using assms(2) by (rule allPairs_nonempty)
  have "\<forall>p\<in>set (allPairs samples). 0 \<le> distance p"
    using allPairs_nonneg by blast
  from fillBins_spec [OF assms(1) this] obtain bins where
    fb: "fillBins binSize (allPairs samples) = Inr bins" and
    ent: "\<forall>k<length bins.
              bin_distance (bins ! k) = (real k + 0.5) * binSize \<and>
              bin_count (bins ! k) = length (pairsInBin binSize (allPairs samples) k) \<and>
              bin_sum (bins ! k)
                = sum_list (map semivariance (pairsInBin binSize (allPairs samples) k))"
    by blast
  have "calculateSemivariogram samples binSize =
          Inr (map (\<lambda>bin. \<lparr>distance = bin_distance bin,
                            semivariance = bin_sum bin / real (bin_count bin)\<rparr>)
                 (filter (\<lambda>bin. bin_count bin > 0) bins))"
    using assms(2) ne fb by (simp add: calculateSemivariogram_def Let_def)
  with ent show ?thesis by (intro exI [of _ bins] conjI)
qed

lemma midpoints_ascending:
  assumes "0 < binSize"
    and "\<forall>k<length bins. bin_distance (bins ! k) = (real k + 0.5) * binSize"
  shows "sorted_wrt (\<lambda>a b. bin_distance a < bin_distance b) bins"
  unfolding sorted_wrt_iff_nth_less
proof (intro allI impI)
  fix i j assume "i < j" "j < length bins"
  then have "bin_distance (bins ! i) = (real i + 0.5) * binSize"
    "bin_distance (bins ! j) = (real j + 0.5) * binSize"
    using assms(2) by simp_all
  moreover have "(real i + 0.5) * binSize < (real j + 0.5) * binSize"
    using \<open>i < j\<close> assms(1) by simp
  ultimately show "bin_distance (bins ! i) < bin_distance (bins ! j)" by simp
qed

text \<open>
  C6. With fewer than two samples the result is the empty sequence. With at least two
  samples and a positive bin width the call returns a sequence whose distances are
  strictly ascending, and every returned point is the midpoint of a bin \<open>k\<close> into which at
  least one pair fell, with the mean of the contributions of the pairs of that bin.
\<close>

theorem calculateSemivariogram_populated_ascending:
  "(length samples < 2 \<longrightarrow> calculateSemivariogram samples binSize = Inr []) \<and>
   (2 \<le> length samples \<and> 0 < binSize \<longrightarrow>
      (\<exists>res. calculateSemivariogram samples binSize = Inr res \<and>
             sorted_wrt (<) (map distance res) \<and>
             (\<forall>e\<in>set res. \<exists>k. distance e = (real k + 0.5) * binSize \<and>
                                 pairsInBin binSize (allPairs samples) k \<noteq> [] \<and>
                                 semivariance e =
                                   sum_list (map semivariance
                                               (pairsInBin binSize (allPairs samples) k))
                                   / real (length (pairsInBin binSize (allPairs samples) k)))))"
proof (intro conjI impI)
  assume "length samples < 2"
  then show "calculateSemivariogram samples binSize = Inr []"
    by (simp add: calculateSemivariogram_def)
next
  assume a: "2 \<le> length samples \<and> 0 < binSize"
  let ?pt = "\<lambda>bin. \<lparr>distance = bin_distance bin,
                     semivariance = bin_sum bin / real (bin_count bin)\<rparr>"
  from calculateSemivariogram_spec [of binSize samples] a obtain bins :: "Bin list" where
    res: "calculateSemivariogram samples binSize
            = Inr (map ?pt (filter (\<lambda>bin. bin_count bin > 0) bins))" and
    ent: "\<forall>k<length bins.
              bin_distance (bins ! k) = (real k + 0.5) * binSize \<and>
              bin_count (bins ! k) = length (pairsInBin binSize (allPairs samples) k) \<and>
              bin_sum (bins ! k)
                = sum_list (map semivariance (pairsInBin binSize (allPairs samples) k))"
    by blast
  let ?res = "map ?pt (filter (\<lambda>bin. bin_count bin > 0) bins)"
  have "sorted_wrt (\<lambda>a b. bin_distance a < bin_distance b) bins"
    using a ent by (intro midpoints_ascending [of binSize bins]) simp_all
  then have "sorted_wrt (\<lambda>a b. bin_distance a < bin_distance b)
               (filter (\<lambda>bin. bin_count bin > 0) bins)"
    by (rule sorted_wrt_filter)
  then have sorted: "sorted_wrt (<) (map distance ?res)"
    by (simp add: sorted_wrt_map)
  have pop: "\<exists>k. distance e = (real k + 0.5) * binSize \<and>
                 pairsInBin binSize (allPairs samples) k \<noteq> [] \<and>
                 semivariance e =
                   sum_list (map semivariance (pairsInBin binSize (allPairs samples) k))
                   / real (length (pairsInBin binSize (allPairs samples) k))"
    if "e \<in> set ?res" for e
  proof -
    from that obtain b where b: "b \<in> set bins" "0 < bin_count b" "e = ?pt b" by auto
    then obtain k where k: "k < length bins" "b = bins ! k"
      by (auto simp: in_set_conv_nth)
    have "distance e = (real k + 0.5) * binSize" using b k ent by simp
    moreover have "pairsInBin binSize (allPairs samples) k \<noteq> []"
      using b k ent by auto
    moreover have "semivariance e =
                     sum_list (map semivariance (pairsInBin binSize (allPairs samples) k))
                     / real (length (pairsInBin binSize (allPairs samples) k))"
      using b k ent by simp
    ultimately show ?thesis by blast
  qed
  show "\<exists>res. calculateSemivariogram samples binSize = Inr res \<and>
             sorted_wrt (<) (map distance res) \<and>
             (\<forall>e\<in>set res. \<exists>k. distance e = (real k + 0.5) * binSize \<and>
                                 pairsInBin binSize (allPairs samples) k \<noteq> [] \<and>
                                 semivariance e =
                                   sum_list (map semivariance
                                               (pairsInBin binSize (allPairs samples) k))
                                   / real (length (pairsInBin binSize (allPairs samples) k)))"
    using res sorted pop by blast
qed

theorem calculateSemivariogram_populated_ascending_witness:
  "length [\<lparr>x = 0, y = 0, z = 5\<rparr>] < 2 \<and>
   calculateSemivariogram [\<lparr>x = 0, y = 0, z = 5\<rparr>] 3 = Inr [] \<and>
   (2 \<le> length [\<lparr>x = 0, y = 0, z = 5\<rparr>, \<lparr>x = 3, y = 0, z = 8\<rparr>, \<lparr>x = 6, y = 0, z = 5\<rparr>] \<and> (0::real) < 3) \<and>
   (\<exists>res. calculateSemivariogram [\<lparr>x = 0, y = 0, z = 5\<rparr>, \<lparr>x = 3, y = 0, z = 8\<rparr>, \<lparr>x = 6, y = 0, z = 5\<rparr>] 3 = Inr res \<and>
          sorted_wrt (<) (map distance res) \<and>
          (\<forall>e\<in>set res. \<exists>k. distance e = (real k + 0.5) * 3 \<and>
                              pairsInBin 3 (allPairs [\<lparr>x = 0, y = 0, z = 5\<rparr>, \<lparr>x = 3, y = 0, z = 8\<rparr>, \<lparr>x = 6, y = 0, z = 5\<rparr>]) k \<noteq> [] \<and>
                              semivariance e =
                                sum_list (map semivariance (pairsInBin 3 (allPairs [\<lparr>x = 0, y = 0, z = 5\<rparr>, \<lparr>x = 3, y = 0, z = 8\<rparr>, \<lparr>x = 6, y = 0, z = 5\<rparr>]) k))
                                / real (length (pairsInBin 3 (allPairs [\<lparr>x = 0, y = 0, z = 5\<rparr>, \<lparr>x = 3, y = 0, z = 8\<rparr>, \<lparr>x = 6, y = 0, z = 5\<rparr>]) k))))"
  using calculateSemivariogram_populated_ascending [of "[\<lparr>x = 0, y = 0, z = 5\<rparr>]" 3]
    calculateSemivariogram_populated_ascending [of "[\<lparr>x = 0, y = 0, z = 5\<rparr>, \<lparr>x = 3, y = 0, z = 8\<rparr>, \<lparr>x = 6, y = 0, z = 5\<rparr>]" 3]
  by simp

section \<open>The fitted parameters\<close>




section \<open>The scenario of three samples on a line\<close>

lemma scenario_pairs:
  "allPairs [\<lparr>x = 0, y = 0, z = 5\<rparr>, \<lparr>x = 3, y = 0, z = 8\<rparr>, \<lparr>x = 6, y = 0, z = 5\<rparr>] =
     [\<lparr>distance = 3, semivariance = 9 / 2\<rparr>, \<lparr>distance = 6, semivariance = 0\<rparr>,
      \<lparr>distance = 3, semivariance = 9 / 2\<rparr>]"
  by (simp add: pairOf_def)

lemma upt_0_3: "[0 ..< 3] = [0, 1, 2]"
  by (simp add: upt_rec)

lemma scenario_bins:
  "fillBins 3 [\<lparr>distance = 3, semivariance = 9 / 2\<rparr>, \<lparr>distance = 6, semivariance = 0\<rparr>,
               \<lparr>distance = 3, semivariance = 9 / 2\<rparr>] =
     Inr [\<lparr>bin_distance = 3 / 2, bin_count = 0, bin_sum = 0\<rparr>,
          \<lparr>bin_distance = 9 / 2, bin_count = 2, bin_sum = 9\<rparr>,
          \<lparr>bin_distance = 15 / 2, bin_count = 1, bin_sum = 0\<rparr>]"
  by (simp add: fillBins_def makeBins_def js_div_def assignPair_def upt_0_3)

lemma scenario_result:
  "calculateSemivariogram [\<lparr>x = 0, y = 0, z = 5\<rparr>, \<lparr>x = 3, y = 0, z = 8\<rparr>, \<lparr>x = 6, y = 0, z = 5\<rparr>] 3 =
     Inr [\<lparr>distance = 9 / 2, semivariance = 9 / 2\<rparr>, \<lparr>distance = 15 / 2, semivariance = 0\<rparr>]"
  by (simp add: calculateSemivariogram_def scenario_pairs scenario_bins del: allPairs.simps)

text \<open>
  C7, as the code has it. On the samples (0,0,5), (3,0,8), (6,0,5) with bin width 3 the
  pairs have distances 3, 6, 3 and contributions 4.5, 0, 4.5. Three bins are created,
  with midpoints 1.5, 4.5 and 7.5; \<open>floor(3/3) = 1\<close> and \<open>floor(6/3) = 2\<close>, so bin 0
  stays empty, bin 1 receives 2 pairs and bin 2 receives 1. The result is exactly two
  points, at the midpoints 4.5 and 7.5, with the means 4.5 and 0.
\<close>

theorem semivariogram_scenario_midpoints:
  "fillBins 3 (allPairs [\<lparr>x = 0, y = 0, z = 5\<rparr>, \<lparr>x = 3, y = 0, z = 8\<rparr>, \<lparr>x = 6, y = 0, z = 5\<rparr>]) =
     Inr [\<lparr>bin_distance = 3 / 2, bin_count = 0, bin_sum = 0\<rparr>,
          \<lparr>bin_distance = 9 / 2, bin_count = 2, bin_sum = 9\<rparr>,
          \<lparr>bin_distance = 15 / 2, bin_count = 1, bin_sum = 0\<rparr>] \<and>
   calculateSemivariogram [\<lparr>x = 0, y = 0, z = 5\<rparr>, \<lparr>x = 3, y = 0, z = 8\<rparr>, \<lparr>x = 6, y = 0, z = 5\<rparr>] 3 =
     Inr [\<lparr>distance = 9 / 2, semivariance = 9 / 2\<rparr>, \<lparr>distance = 15 / 2, semivariance = 0\<rparr>]"
  by (simp only: scenario_pairs scenario_bins scenario_result)

text \<open>
  C7 as stated fails: the distances of the two returned points are not 3 and 6.
\<close>

theorem semivariogram_scenario_not_3_6:
  "map_sum id (map distance) (calculateSemivariogram [\<lparr>x = 0, y = 0, z = 5\<rparr>, \<lparr>x = 3, y = 0, z = 8\<rparr>, \<lparr>x = 6, y = 0, z = 5\<rparr>] 3) \<noteq> Inr [3, 6]"
  by (simp add: scenario_result)

section \<open>Standard deviation\<close>

lemma accumulate_cells:
  "fold addCell vs (a, b, c)
     = (a + sum_list vs, b + sum_list (map (\<lambda>v. v * v) vs), c + length vs)"
  by (induction vs arbitrary: a b c) (simp_all add: addCell_def algebra_simps)

lemma accumulate_rows:
  "fold (\<lambda>row acc. fold addCell row acc) surface (a, b, c)
     = (a + sum_list (concat surface), b + sum_list (map (\<lambda>v. v * v) (concat surface)),
        c + length (concat surface))"
  by (induction surface arbitrary: a b c) (simp_all add: accumulate_cells algebra_simps)

text \<open>
  On a surface with at least one cell the function returns a number that is not
  negative, the root of \<open>max(0, E[x\<^sup>2] - E[x]\<^sup>2)\<close> over all cells.
\<close>

lemma calculateStdDev_cells:
  assumes "concat surface \<noteq> []"
  shows "\<exists>v. calculateStdDev surface = Some v \<and> 0 \<le> v \<and>
           v = sqrt (max 0 (sum_list (map (\<lambda>v. v * v) (concat surface))
                              / real (length (concat surface))
                            - (sum_list (concat surface) / real (length (concat surface)))\<^sup>2))"
proof -
  have "length (concat surface) \<noteq> 0" using assms by simp
  then show ?thesis
    unfolding calculateStdDev_def accumulate_rows
    by (simp add: js_div_def power2_eq_square max.commute del: length_concat length_0_conv)
qed

lemma calculateStdDev_no_cells:
  assumes "concat surface = []"
  shows "calculateStdDev surface = None"
  unfolding calculateStdDev_def accumulate_rows
  using assms by (simp add: js_div_def)

text \<open>
  C9 fails on the surface without rows: the count of cells is 0, the mean is \<open>0 / 0\<close>, and
  the function returns \<open>NaN\<close>, which is not a real number greater than or equal to 0.
\<close>

theorem calculateStdDev_empty_surface:
  "calculateStdDev [] = None"
  by (simp add: calculateStdDev_def js_div_def)

section \<open>Exact interpolation at a sample\<close>

text \<open>
  C1. For a non-empty sample list, valid parameters and a query point that equals the
  location of a sample \<open>s\<close>, \<open>krigePoint\<close> returns exactly the \<open>z\<close> of a sample at that
  location; when the locations of the samples are pairwise distinct, as the data model
  requires, this is the \<open>z\<close> of \<open>s\<close>.
\<close>

theorem krigePoint_exact_match:
  assumes "valid_params params" and "samples \<noteq> []"
    and "s \<in> set samples" and "x s = qx" and "y s = qy"
  shows "(\<exists>t\<in>set samples. x t = qx \<and> y t = qy \<and>
            krigePoint qx qy samples params = Some (z t)) \<and>
         (distinct (map (\<lambda>t. (x t, y t)) samples) \<longrightarrow>
            krigePoint qx qy samples params = Some (z s))"
proof -
  let ?P = "\<lambda>t. x t = qx \<and> y t = qy"
  from assms(3,4,5) obtain t where t: "find ?P samples = Some t"
    by (cases "find ?P samples") (auto simp: find_None_iff)
  then have tin: "t \<in> set samples" "x t = qx" "y t = qy"
    by (auto simp: find_Some_iff)
  have k: "krigePoint qx qy samples params = Some (z t)"
    using t assms(2) by (simp add: krigePoint_def)
  have "t = s" if "distinct (map (\<lambda>t. (x t, y t)) samples)"
  proof -
    have "inj_on (\<lambda>t. (x t, y t)) (set samples)" using that by (simp add: distinct_map)
    then show ?thesis using tin assms(3,4,5) by (auto dest: inj_onD)
  qed
  then show ?thesis using k tin by auto
qed

theorem krigePoint_exact_match_witness:
  "valid_params \<lparr>nugget = 0, sill = 30, range_v = 20\<rparr> \<and>
   [\<lparr>x = 0, y = 0, z = 10\<rparr>, \<lparr>x = 10, y = 0, z = 20\<rparr>, \<lparr>x = 0, y = 10, z = 15\<rparr>] \<noteq> [] \<and>
   \<lparr>x = 10, y = 0, z = 20\<rparr>
     \<in> set [\<lparr>x = 0, y = 0, z = 10\<rparr>, \<lparr>x = 10, y = 0, z = 20\<rparr>, \<lparr>x = 0, y = 10, z = 15\<rparr>] \<and>
   distinct (map (\<lambda>t. (x t, y t))
     [\<lparr>x = 0, y = 0, z = 10\<rparr>, \<lparr>x = 10, y = 0, z = 20\<rparr>, \<lparr>x = 0, y = 10, z = 15\<rparr>]) \<and>
   krigePoint 10 0
     [\<lparr>x = 0, y = 0, z = 10\<rparr>, \<lparr>x = 10, y = 0, z = 20\<rparr>, \<lparr>x = 0, y = 10, z = 15\<rparr>]
     \<lparr>nugget = 0, sill = 30, range_v = 20\<rparr> = Some 20"
proof -
  have v: "valid_params \<lparr>nugget = 0, sill = 30, range_v = 20\<rparr>"
    by (simp add: valid_params_def)
  have n: "[\<lparr>x = 0, y = 0, z = 10\<rparr>, \<lparr>x = 10, y = 0, z = 20\<rparr>, \<lparr>x = 0, y = 10, z = 15\<rparr>] \<noteq> []"
    by simp
  have m: "\<lparr>x = 10, y = 0, z = 20\<rparr>
     \<in> set [\<lparr>x = 0, y = 0, z = 10\<rparr>, \<lparr>x = 10, y = 0, z = 20\<rparr>, \<lparr>x = 0, y = 10, z = 15\<rparr>]"
    by simp
  show ?thesis
    using v krigePoint_exact_match [OF v n m, of 10 0] by simp
qed

section \<open>Gaussian elimination on a system with two equal rows\<close>



lemma swapRows_length [simp]: "length (swapRows a i k) = length a"
  by (simp add: swapRows_def)



lemma eliminate_fold_length [simp]:
  "length (fold (\<lambda>j r. r[j := r ! j - factor * pivotRow ! j]) js row) = length row"
  by (induction js arbitrary: row) simp_all


lemma eliminateRow_length [simp]: "length (eliminateRow n i factor pivotRow row) = length row"
  by (simp add: eliminateRow_def)















lemma sphericalVariogram_defined:
  assumes "0 \<le> d"
  shows "\<exists>v. sphericalVariogram d p = Some v"
  using assms by (auto simp: sphericalVariogram_def js_div_def Let_def)

lemma those_map_Some: "those (map (\<lambda>a. Some (f a)) xs) = Some (map f xs)"
  by (induction xs) simp_all

lemma buildSystem_shape:
  fixes samples :: "Sample list"
  defines "n \<equiv> length samples"
  shows "\<exists>A b. buildSystem qx qy samples params = Some (A, b) \<and> squareMatrix (n + 1) A \<and>
           (\<forall>i<n. A ! i ! i = 0 \<and> A ! i ! n = 1 \<and>
              (\<forall>j<n. i \<noteq> j \<longrightarrow>
                 sphericalVariogram
                   (sqrt ((x (samples ! i) - x (samples ! j)) * (x (samples ! i) - x (samples ! j))
                        + (y (samples ! i) - y (samples ! j)) * (y (samples ! i) - y (samples ! j))))
                   params = Some (A ! i ! j)))"
proof -
  define g where "g d = the (sphericalVariogram d params)" for d
  have g: "sphericalVariogram (sqrt (u * u + v * v)) params = Some (g (sqrt (u * u + v * v)))"
    for u v
    using sphericalVariogram_defined [of "sqrt (u * u + v * v)" params]
    by (auto simp: g_def)
  define entry where
    "entry i j = (if i = j then 0
                  else g (sqrt ((x (samples ! i) - x (samples ! j)) * (x (samples ! i) - x (samples ! j))
                        + (y (samples ! i) - y (samples ! j)) * (y (samples ! i) - y (samples ! j)))))"
    for i j
  define row where "row i = map (entry i) [0 ..< n] @ [1]" for i
  have "systemRow samples params i = map (\<lambda>v. Some v) (row i)" for i
    by (simp add: systemRow_def row_def entry_def n_def g Let_def)
  then have rows: "those (systemRow samples params i) = Some (row i)" for i
    by (simp add: those_map_Some)
  have allrows: "those (map (\<lambda>i. those (systemRow samples params i)) [0 ..< n])
                   = Some (map row [0 ..< n])"
    by (simp add: rows those_map_Some)
  have "rhsEntry qx qy params
          = (\<lambda>s. Some (g (sqrt ((qx - x s) * (qx - x s) + (qy - y s) * (qy - y s)))))"
    by (rule ext) (simp add: rhsEntry_def Let_def g)
  then have rhs: "those (map (rhsEntry qx qy params) samples)
    = Some (map (\<lambda>s. g (sqrt ((qx - x s) * (qx - x s) + (qy - y s) * (qy - y s)))) samples)"
    by (simp add: those_map_Some)
  let ?A = "map row [0 ..< n] @ [replicate n 1 @ [0]]"
  let ?b = "map (\<lambda>s. g (sqrt ((qx - x s) * (qx - x s) + (qy - y s) * (qy - y s)))) samples @ [1]"
  have built: "buildSystem qx qy samples params = Some (?A, ?b)"
    using allrows rhs by (simp add: buildSystem_def n_def Let_def)
  have sq: "squareMatrix (n + 1) ?A"
    by (auto simp: squareMatrix_def row_def)
  have ent: "?A ! i ! i = 0 \<and> ?A ! i ! n = 1 \<and>
              (\<forall>j<n. i \<noteq> j \<longrightarrow>
                 sphericalVariogram
                   (sqrt ((x (samples ! i) - x (samples ! j)) * (x (samples ! i) - x (samples ! j))
                        + (y (samples ! i) - y (samples ! j)) * (y (samples ! i) - y (samples ! j))))
                   params = Some (?A ! i ! j))" if "i < n" for i
  proof -
    have "?A ! i = row i" using that by (simp add: nth_append)
    then show ?thesis
      using that by (simp add: row_def nth_append entry_def g)
  qed
  show ?thesis
    using built sq ent by blast
qed

text \<open>
  Whatever the samples and the parameters are, the system is built and \<open>krigePoint\<close>
  returns a number.
\<close>

lemma krigePoint_returns: "\<exists>v. krigePoint qx qy samples params = Some v"
proof -
  from buildSystem_shape [of qx qy samples params] obtain A b where
    "buildSystem qx qy samples params = Some (A, b)" by blast
  then show ?thesis
    by (simp add: krigePoint_def split: option.split)
qed



lemma near_quarter: "sqrt (1 / 4000 * (1 / 4000)) < 1 / 1000"
  by (rule real_less_lsqrt) (simp_all add: power2_eq_square)



section \<open>The order of the samples\<close>

lemma exact_match_reordered:
  assumes "mset samples' = mset samples"
    and "\<exists>s\<in>set samples. x s = qx \<and> y s = qy"
    and "\<forall>s\<in>set samples. \<forall>t\<in>set samples.
           x s = qx \<and> y s = qy \<and> x t = qx \<and> y t = qy \<longrightarrow> z s = z t"
  shows "krigePoint qx qy samples' params = krigePoint qx qy samples params"
proof -
  let ?P = "\<lambda>s. x s = qx \<and> y s = qy"
  have sets: "set samples' = set samples" using assms(1) by (rule mset_eq_setD)
  from assms(2) obtain s where s: "find ?P samples = Some s"
    by (cases "find ?P samples") (auto simp: find_None_iff)
  from assms(2) sets obtain s' where s': "find ?P samples' = Some s'"
    by (cases "find ?P samples'") (auto simp: find_None_iff)
  have "s \<in> set samples \<and> ?P s" using s by (auto simp: find_Some_iff)
  moreover have "s' \<in> set samples \<and> ?P s'" using s' sets by (auto simp: find_Some_iff)
  ultimately have "z s' = z s" using assms(3) by blast
  moreover have "samples \<noteq> []" "samples' \<noteq> []" using s s' by auto
  ultimately show ?thesis using s s' by (simp add: krigePoint_def)
qed

text \<open>
  C5, as the code has it. For a sample list, a permutation of it and valid parameters:
  when the query point is the location of a sample and all samples at that location
  have the same \<open>z\<close> (in particular when the locations are pairwise distinct),
  \<open>krigePoint\<close> returns the same prediction on both lists.
\<close>

theorem sample_order_irrelevant_at_sample:
  assumes "mset samples' = mset samples" and "valid_params params"
    and "\<exists>s\<in>set samples. x s = qx \<and> y s = qy"
    and "\<forall>s\<in>set samples. \<forall>t\<in>set samples.
           x s = qx \<and> y s = qy \<and> x t = qx \<and> y t = qy \<longrightarrow> z s = z t"
  shows "krigePoint qx qy samples' params = krigePoint qx qy samples params"
  using assms(1,3,4) by (rule exact_match_reordered)

theorem sample_order_irrelevant_at_sample_witness:
  "mset [\<lparr>x = 6, y = 8, z = 2\<rparr>, \<lparr>x = 0, y = 0, z = 1\<rparr>]
     = mset [\<lparr>x = 0, y = 0, z = 1\<rparr>, \<lparr>x = 6, y = 8, z = 2\<rparr>] \<and>
   valid_params \<lparr>nugget = 0, sill = 30, range_v = 20\<rparr> \<and>
   krigePoint 6 8 [\<lparr>x = 6, y = 8, z = 2\<rparr>, \<lparr>x = 0, y = 0, z = 1\<rparr>]
      \<lparr>nugget = 0, sill = 30, range_v = 20\<rparr>
     = krigePoint 6 8 [\<lparr>x = 0, y = 0, z = 1\<rparr>, \<lparr>x = 6, y = 8, z = 2\<rparr>]
         \<lparr>nugget = 0, sill = 30, range_v = 20\<rparr>"
proof -
  have m: "mset [\<lparr>x = 6, y = 8, z = 2\<rparr>, \<lparr>x = 0, y = 0, z = 1\<rparr>]
             = mset [\<lparr>x = 0, y = 0, z = 1\<rparr>, \<lparr>x = 6, y = 8, z = 2\<rparr>]"
    by simp
  have v: "valid_params \<lparr>nugget = 0, sill = 30, range_v = 20\<rparr>"
    by (simp add: valid_params_def)
  show ?thesis
    using m v sample_order_irrelevant_at_sample [OF m v, of 6 8] by simp
qed

text \<open>
  The fallback returns at the first sample closer than 0.001 to the query point.
\<close>

lemma flat_model: "sphericalVariogram d \<lparr>nugget = 0, sill = 0, range_v = 1\<rparr> = Some 0"
  by (simp add: sphericalVariogram_def js_div_def)

lemma flat_system:
  "buildSystem qx qy [a, b] \<lparr>nugget = 0, sill = 0, range_v = 1\<rparr>
     = Some ([[0, 0, 1], [0, 0, 1], [1, 1, 0]], [0, 0, 1])"
  by (simp add: buildSystem_def systemRow_def rhsEntry_def flat_model Let_def)

lemma flat_singular: "gaussianElimination [[0, 0, 1], [0, 0, 1], [1, 1, 0]] [0, 0, 1] = None"
  by code_simp

lemma fallback_first_near:
  "inverseDistanceWeighting (1 / 4000) 0 (\<lparr>x = 0, y = 0, z = 1\<rparr> # rest) = 1"
  "inverseDistanceWeighting (1 / 4000) 0 (\<lparr>x = 1 / 2000, y = 0, z = 2\<rparr> # rest) = 2"
  using near_quarter by (simp_all add: inverseDistanceWeighting_def Let_def)

text \<open>
  The test of the pivot against \<open>1e-10\<close> depends on the order of the rows and columns.
  With the samples at \<open>x = 0, 1, 3\<close> in this order the second pivot is
  \<open>-13/135000000000\<close>, the system counts as singular and the fallback gives \<open>25/9\<close>;
  with the order \<open>0, 3, 1\<close> every pivot has magnitude above \<open>1e-10\<close> and the solved
  weights give \<open>3441/1115\<close>.
\<close>

lemma system_0_1_3:
  "buildSystem 2 0 [\<lparr>x = 0, y = 0, z = 1\<rparr>, \<lparr>x = 1, y = 0, z = 2\<rparr>, \<lparr>x = 3, y = 0, z = 4\<rparr>]
     \<lparr>nugget = 0, sill = 1 / 5000000000, range_v = 3\<rparr>
   = Some ([[0, 13 / 135000000000, 1 / 5000000000, 1],
            [13 / 135000000000, 0, 23 / 135000000000, 1],
            [1 / 5000000000, 23 / 135000000000, 0, 1],
            [1, 1, 1, 0]],
           [23 / 135000000000, 13 / 135000000000, 13 / 135000000000, 1])"
  by (simp add: buildSystem_def systemRow_def rhsEntry_def sphericalVariogram_def js_div_def
        Let_def upt_rec power3_eq_cube)


lemma singular_0_1_3:
  "gaussianElimination
     [[0, 13 / 135000000000, 1 / 5000000000, 1],
      [13 / 135000000000, 0, 23 / 135000000000, 1],
      [1 / 5000000000, 23 / 135000000000, 0, 1],
      [1, 1, 1, 0]]
     [23 / 135000000000, 13 / 135000000000, 13 / 135000000000, 1] = None"
  by code_simp

lemma fallback_0_1_3:
  "inverseDistanceWeighting 2 0
     [\<lparr>x = 0, y = 0, z = 1\<rparr>, \<lparr>x = 1, y = 0, z = 2\<rparr>, \<lparr>x = 3, y = 0, z = 4\<rparr>] = 25 / 9"
  by (simp add: inverseDistanceWeighting_def Let_def)

lemma system_0_3_1:
  "buildSystem 2 0 [\<lparr>x = 0, y = 0, z = 1\<rparr>, \<lparr>x = 3, y = 0, z = 4\<rparr>, \<lparr>x = 1, y = 0, z = 2\<rparr>]
     \<lparr>nugget = 0, sill = 1 / 5000000000, range_v = 3\<rparr>
   = Some ([[0, 1 / 5000000000, 13 / 135000000000, 1],
            [1 / 5000000000, 0, 23 / 135000000000, 1],
            [13 / 135000000000, 23 / 135000000000, 0, 1],
            [1, 1, 1, 0]],
           [23 / 135000000000, 13 / 135000000000, 13 / 135000000000, 1])"
  by (simp add: buildSystem_def systemRow_def rhsEntry_def sphericalVariogram_def js_div_def
        Let_def upt_rec power3_eq_cube)

lemma solution_0_3_1:
  "gaussianElimination
       [[0, 1 / 5000000000, 13 / 135000000000, 1],
        [1 / 5000000000, 0, 23 / 135000000000, 1],
        [13 / 135000000000, 23 / 135000000000, 0, 1],
        [1, 1, 1, 0]]
       [23 / 135000000000, 13 / 135000000000, 13 / 135000000000, 1]
     = Some [- 69 / 1115, 571 / 1115, 613 / 1115, 251 / 16725000000000]"
  by code_simp

text \<open>
  C5 as stated fails, also for samples at pairwise distinct locations, valid parameters
  and a query point at no sample. In the first pair of calls the system is singular and
  the fallback returns the \<open>z\<close> of the first sample closer than 0.001: 1 for one order of
  the list, 2 for the other. In the second pair no sample is near the query point and
  the order decides whether Gaussian elimination meets a pivot below \<open>1e-10\<close>: the
  prediction is \<open>25/9\<close> for one order and \<open>3441/1115\<close> for the other.
\<close>

theorem sample_order_changes_prediction:
  "valid_params \<lparr>nugget = 0, sill = 0, range_v = 1\<rparr> \<and>
   krigePoint (1 / 4000) 0 [\<lparr>x = 0, y = 0, z = 1\<rparr>, \<lparr>x = 1 / 2000, y = 0, z = 2\<rparr>]
      \<lparr>nugget = 0, sill = 0, range_v = 1\<rparr> = Some 1 \<and>
   krigePoint (1 / 4000) 0 [\<lparr>x = 1 / 2000, y = 0, z = 2\<rparr>, \<lparr>x = 0, y = 0, z = 1\<rparr>]
      \<lparr>nugget = 0, sill = 0, range_v = 1\<rparr> = Some 2 \<and>
   valid_params \<lparr>nugget = 0, sill = 1 / 5000000000, range_v = 3\<rparr> \<and>
   krigePoint 2 0 [\<lparr>x = 0, y = 0, z = 1\<rparr>, \<lparr>x = 1, y = 0, z = 2\<rparr>, \<lparr>x = 3, y = 0, z = 4\<rparr>]
     \<lparr>nugget = 0, sill = 1 / 5000000000, range_v = 3\<rparr> = Some (25 / 9) \<and>
   krigePoint 2 0 [\<lparr>x = 0, y = 0, z = 1\<rparr>, \<lparr>x = 3, y = 0, z = 4\<rparr>, \<lparr>x = 1, y = 0, z = 2\<rparr>]
     \<lparr>nugget = 0, sill = 1 / 5000000000, range_v = 3\<rparr> = Some (3441 / 1115)"
  by (simp add: krigePoint_def valid_params_def flat_system flat_singular fallback_first_near
        system_0_1_3 singular_0_1_3 fallback_0_1_3 system_0_3_1 solution_0_3_1 upt_rec)

end
